theory Spec2Isabelle
  imports Main
begin

section \<open>JavaScript values used by the controllers\<close>

text \<open>
  A value that may be \<^verbatim>\<open>undefined\<close> is an \<open>option\<close>, \<open>None\<close> being \<^verbatim>\<open>undefined\<close>.
  A string is a list of code units, one \<open>char\<close> per unit: the \<open>char\<close> with code \<open>n\<close> is
  the code unit U+00\<open>n\<close>, so the strings of the model are the JavaScript strings over
  U+0000 to U+00FF, and a string holding a higher code unit has no counterpart here.
  On these strings the helpers below are the ECMAScript functions. Request fields are
  typed as the controllers use them (strings, and an integer for \<^verbatim>\<open>rating\<close>); JSON
  values of another type are outside the model.
\<close>

definition truthy :: "string option \<Rightarrow> bool" where
  \<comment> \<open>\<^verbatim>\<open>!!v\<close> for a string or \<^verbatim>\<open>undefined\<close>: the empty string is falsy too.\<close>
  "truthy v = (case v of None \<Rightarrow> False | Some s \<Rightarrow> s \<noteq> [])"

definition is_ws :: "char \<Rightarrow> bool" where
  \<comment> \<open>The members of ECMAScript's WhiteSpace and LineTerminator up to U+00FF: tab,
      line feed, vertical tab, form feed, carriage return, space and no-break space.\<close>
  "is_ws c = (c = CHR 0x09 \<or> c = CHR 0x0A \<or> c = CHR 0x0B \<or> c = CHR 0x0C \<or>
              c = CHR 0x0D \<or> c = CHR 0x20 \<or> c = CHR 0xA0)"

definition trim :: "string \<Rightarrow> string" where
  "trim s = rev (dropWhile is_ws (rev (dropWhile is_ws s)))"

definition lower_char :: "char \<Rightarrow> char" where
  \<comment> \<open>The lower-case mapping of Unicode up to U+00FF: A to Z, and U+00C0 to U+00DE
      without the multiplication sign U+00D7, each move up by 32.\<close>
  "lower_char c =
     (let n = (of_char c :: nat) in
      if 65 \<le> n \<and> n \<le> 90 then char_of (n + 32)
      else if 192 \<le> n \<and> n \<le> 222 \<and> n \<noteq> 215 then char_of (n + 32)
      else c)"

definition toLowerCase :: "string \<Rightarrow> string" where
  "toLowerCase s = map lower_char s"

fun split :: "char \<Rightarrow> string \<Rightarrow> string list" where
  \<comment> \<open>\<^verbatim>\<open>s.split(sep)\<close> for a one-character separator: never the empty list.\<close>
  "split sep [] = [[]]"
| "split sep (c # cs) =
     (if c = sep then [] # split sep cs
      else (case split sep cs of [] \<Rightarrow> [[c]] | w # ws \<Rightarrow> (c # w) # ws))"

definition at_index :: "'a list \<Rightarrow> nat \<Rightarrow> 'a option" where
  \<comment> \<open>\<^verbatim>\<open>xs[i]\<close>: \<^verbatim>\<open>undefined\<close> out of range.\<close>
  "at_index xs i = (if i < length xs then Some (xs ! i) else None)"

definition digit_val :: "char \<Rightarrow> nat option" where
  "digit_val c =
     (let n = (of_char c :: nat) in
      if 48 \<le> n \<and> n \<le> 57 then Some (n - 48)
      else if 97 \<le> n \<and> n \<le> 122 then Some (n - 87)
      else if 65 \<le> n \<and> n \<le> 90 then Some (n - 55)
      else None)"

definition is_digit :: "nat \<Rightarrow> char \<Rightarrow> bool" where
  "is_digit radix c = (case digit_val c of None \<Rightarrow> False | Some d \<Rightarrow> d < radix)"

definition digits_value :: "nat \<Rightarrow> string \<Rightarrow> nat" where
  "digits_value radix ds =
     foldl (\<lambda>acc c. acc * radix + (case digit_val c of None \<Rightarrow> 0 | Some d \<Rightarrow> d)) 0 ds"

definition parseInt :: "string option \<Rightarrow> int option" where
  \<comment> \<open>\<^verbatim>\<open>parseInt(v)\<close> with no radix argument; \<open>None\<close> is \<^verbatim>\<open>NaN\<close>. Leading white space is
      skipped, a sign is read, a \<^verbatim>\<open>0x\<close> prefix selects radix 16, and the longest run of
      digits is converted; \<^verbatim>\<open>undefined\<close> is parsed as the string "undefined". The value is
      exact (JavaScript rounds results beyond \<open>2^53\<close>).\<close>
  "parseInt v =
     (case v of
        None \<Rightarrow> None
      | Some s \<Rightarrow>
          (let s1 = dropWhile is_ws s;
               neg = (case s1 of [] \<Rightarrow> False | c # _ \<Rightarrow> c = CHR ''-'');
               s2 = (case s1 of [] \<Rightarrow> [] | c # r \<Rightarrow> if c = CHR ''-'' \<or> c = CHR ''+'' then r else s1);
               hex = (take 2 s2 = ''0x'' \<or> take 2 s2 = ''0X'');
               radix = (if hex then 16 else 10);
               s3 = (if hex then drop 2 s2 else s2);
               ds = takeWhile (is_digit radix) s3
           in if ds = [] then None
              else Some (if neg then - int (digits_value radix ds) else int (digits_value radix ds))))"

section \<open>Data model\<close>

text \<open>
  The rows of the three tables the controllers query. The \<^verbatim>\<open>id\<close> columns are
  integers (the controllers pass \<^verbatim>\<open>parseInt\<close> results as ids); a user's
  \<^verbatim>\<open>refreshToken\<close> is optional.
\<close>

record user =
  u_id :: int
  u_fullName :: string
  u_email :: string
  u_username :: string
  u_password :: string
  u_refreshToken :: "string option"

record movie =
  m_id :: int
  m_title :: string

record review =
  r_id :: int
  r_movieId :: int
  r_userId :: int
  r_reviewText :: string
  r_rating :: int

record store =
  users :: "user list"
  movies :: "movie list"
  reviews :: "review list"
  next_user_id :: int
  next_review_id :: int

text \<open>What a handler can throw: \<^verbatim>\<open>new ApiError(statusCode, message)\<close>, a run-time
  error of the language, or an error raised by the persistence client.\<close>

datatype thrown = ApiError nat string | TypeError | ReferenceError | PrismaError

text \<open>The decoded claims of a token: the controllers read only their \<^verbatim>\<open>_id\<close>.\<close>

record payload =
  pl_id :: "int option"

section \<open>The persistence client\<close>

text \<open>
  Modelled from the spec: the Prisma schema and client are not part of the sources. The
  spec gives \<^verbatim>\<open>User\<close> a unique \<^verbatim>\<open>username\<close> and \<^verbatim>\<open>email\<close>, and \<^verbatim>\<open>Review\<close> the foreign keys
  \<^verbatim>\<open>movieId\<close> and \<^verbatim>\<open>userId\<close>; ids are generated by the store. Strings compare exactly.
  A client call throws when its argument is invalid (\<^verbatim>\<open>NaN\<close> or \<^verbatim>\<open>undefined\<close> where a
  value is required), when a constraint is violated, and, for \<^verbatim>\<open>update\<close> and
  \<^verbatim>\<open>delete\<close>, when no row has the given id; \<^verbatim>\<open>findUnique\<close> and \<^verbatim>\<open>findFirst\<close> return
  \<^verbatim>\<open>null\<close> (\<open>None\<close>) when nothing matches. In a \<^verbatim>\<open>where\<close> clause a condition whose value
  is \<^verbatim>\<open>undefined\<close> is dropped, and an \<^verbatim>\<open>OR\<close> over no conditions matches nothing.
\<close>

definition user_findFirst_OR :: "string option \<Rightarrow> string option \<Rightarrow> user list \<Rightarrow> user option" where
  \<comment> \<open>\<^verbatim>\<open>prisma.user.findFirst({ where: { OR: [{ username }, { email }] } })\<close>\<close>
  "user_findFirst_OR uname mail us =
     find (\<lambda>u. uname = Some (u_username u) \<or> mail = Some (u_email u)) us"

definition user_findUnique :: "int option \<Rightarrow> user list \<Rightarrow> thrown + user option" where
  \<comment> \<open>\<^verbatim>\<open>prisma.user.findUnique({ where: { id } })\<close>\<close>
  "user_findUnique i us =
     (case i of None \<Rightarrow> Inl PrismaError | Some k \<Rightarrow> Inr (find (\<lambda>u. u_id u = k) us))"

definition user_create :: "store \<Rightarrow> string \<Rightarrow> string \<Rightarrow> string \<Rightarrow> string \<Rightarrow> thrown + user \<times> store" where
  \<comment> \<open>\<^verbatim>\<open>prisma.user.create({ data: { fullName, email, username, password } })\<close>\<close>
  "user_create s fn em un pw =
     (if list_ex (\<lambda>u. u_username u = un \<or> u_email u = em \<or> u_id u = next_user_id s) (users s)
      then Inl PrismaError
      else (let u = \<lparr>u_id = next_user_id s, u_fullName = fn, u_email = em, u_username = un,
                      u_password = pw, u_refreshToken = None\<rparr>
            in Inr (u, s\<lparr>users := users s @ [u], next_user_id := next_user_id s + 1\<rparr>)))"

definition user_update_refreshToken :: "store \<Rightarrow> int \<Rightarrow> string \<Rightarrow> thrown + store" where
  \<comment> \<open>\<^verbatim>\<open>prisma.user.update({ where: { id: userId }, data: { refreshToken } })\<close>\<close>
  "user_update_refreshToken s k rt =
     (if list_ex (\<lambda>u. u_id u = k) (users s)
      then Inr (s\<lparr>users := map (\<lambda>u. if u_id u = k then u\<lparr>u_refreshToken := Some rt\<rparr> else u) (users s)\<rparr>)
      else Inl PrismaError)"

text \<open>A movie with \<^verbatim>\<open>include: { reviews: { include: { user: true } } }\<close>: its reviews, each
  with the row of its author.\<close>

record movie_with_reviews =
  mw_movie :: movie
  mw_reviews :: "(review \<times> user option) list"

definition movie_findUnique_reviews :: "int option \<Rightarrow> store \<Rightarrow> thrown + movie_with_reviews option" where
  "movie_findUnique_reviews i s =
     (case i of
        None \<Rightarrow> Inl PrismaError
      | Some k \<Rightarrow>
          Inr (map_option
                 (\<lambda>m. \<lparr>mw_movie = m,
                       mw_reviews = map (\<lambda>r. (r, find (\<lambda>u. u_id u = r_userId r) (users s)))
                                      (filter (\<lambda>r. r_movieId r = m_id m) (reviews s))\<rparr>)
                 (find (\<lambda>m. m_id m = k) (movies s))))"

definition review_create ::
  "store \<Rightarrow> int option \<Rightarrow> string option \<Rightarrow> int option \<Rightarrow> int option \<Rightarrow> thrown + review \<times> store" where
  \<comment> \<open>\<^verbatim>\<open>prisma.review.create({ data: { movieId, reviewText, rating, userId } })\<close>\<close>
  "review_create s mid txt rat uid =
     (case (mid, txt, rat, uid) of
        (Some m, Some t, Some g, Some u) \<Rightarrow>
          (if list_ex (\<lambda>x. m_id x = m) (movies s) \<and> list_ex (\<lambda>x. u_id x = u) (users s) \<and>
              \<not> list_ex (\<lambda>x. r_id x = next_review_id s) (reviews s)
           then (let r = \<lparr>r_id = next_review_id s, r_movieId = m, r_userId = u,
                           r_reviewText = t, r_rating = g\<rparr>
                 in Inr (r, s\<lparr>reviews := reviews s @ [r], next_review_id := next_review_id s + 1\<rparr>))
           else Inl PrismaError)
      | _ \<Rightarrow> Inl PrismaError)"

definition set_fields :: "string option \<Rightarrow> int option \<Rightarrow> review \<Rightarrow> review" where
  \<comment> \<open>\<^verbatim>\<open>data: { reviewText, rating }\<close>: an \<^verbatim>\<open>undefined\<close> value leaves its column as it is.\<close>
  "set_fields txt rat r =
     r\<lparr>r_reviewText := (case txt of None \<Rightarrow> r_reviewText r | Some t \<Rightarrow> t),
       r_rating := (case rat of None \<Rightarrow> r_rating r | Some g \<Rightarrow> g)\<rparr>"

definition review_update :: "store \<Rightarrow> int option \<Rightarrow> string option \<Rightarrow> int option \<Rightarrow> thrown + review \<times> store" where
  \<comment> \<open>\<^verbatim>\<open>prisma.review.update({ where: { id }, data: { reviewText, rating } })\<close>\<close>
  "review_update s i txt rat =
     (case i of
        None \<Rightarrow> Inl PrismaError
      | Some k \<Rightarrow>
          (case find (\<lambda>r. r_id r = k) (reviews s) of
             None \<Rightarrow> Inl PrismaError
           | Some r \<Rightarrow>
               Inr (set_fields txt rat r,
                    s\<lparr>reviews := map (\<lambda>x. if r_id x = k then set_fields txt rat x else x) (reviews s)\<rparr>)))"

definition review_delete :: "store \<Rightarrow> int option \<Rightarrow> thrown + store" where
  \<comment> \<open>\<^verbatim>\<open>prisma.review.delete({ where: { id } })\<close>\<close>
  "review_delete s i =
     (case i of
        None \<Rightarrow> Inl PrismaError
      | Some k \<Rightarrow>
          (if list_ex (\<lambda>r. r_id r = k) (reviews s)
           then Inr (s\<lparr>reviews := filter (\<lambda>r. r_id r \<noteq> k) (reviews s)\<rparr>)
           else Inl PrismaError))"

section \<open>Requests, responses and the environment\<close>

record req_params =
  p_id :: "string option"
  p_reviewId :: "string option"

record req_body =
  fullName :: "string option"
  email :: "string option"
  username :: "string option"
  password :: "string option"
  reviewText :: "string option"
  rating :: "int option"

record request =
  params :: req_params
  body :: req_body
  authorization :: "string option"  \<comment> \<open>\<^verbatim>\<open>req.headers.authorization\<close>\<close>
  accessToken :: "string option"    \<comment> \<open>\<^verbatim>\<open>req.cookies.accessToken\<close>\<close>
  req_user :: "payload option"      \<comment> \<open>\<^verbatim>\<open>req.user\<close>\<close>

text \<open>A user object as it is serialised: \<^verbatim>\<open>{...user, password: undefined}\<close> keeps every
  column but may blank \<^verbatim>\<open>password\<close> and \<^verbatim>\<open>refreshToken\<close>.\<close>

record json_user =
  ju_id :: int
  ju_fullName :: string
  ju_email :: string
  ju_username :: string
  ju_password :: "string option"
  ju_refreshToken :: "string option"

definition spread :: "user \<Rightarrow> json_user" where
  "spread u = \<lparr>ju_id = u_id u, ju_fullName = u_fullName u, ju_email = u_email u,
               ju_username = u_username u, ju_password = Some (u_password u),
               ju_refreshToken = u_refreshToken u\<rparr>"

datatype api_data =
    CreatedUser json_user
  | LoggedIn json_user string string  \<comment> \<open>\<^verbatim>\<open>{ user, accessToken, refreshToken }\<close>\<close>

datatype json =
    ApiResponse nat api_data string  \<comment> \<open>\<^verbatim>\<open>new ApiResponse(statusCode, data, message)\<close>\<close>
  | UserJson "json_user option"      \<comment> \<open>\<^verbatim>\<open>res.json(user)\<close>, \<^verbatim>\<open>null\<close> when no row was found\<close>
  | ReviewJson review                \<comment> \<open>\<^verbatim>\<open>res.json(updatedReview)\<close>\<close>
  | ReviewObj review                 \<comment> \<open>\<^verbatim>\<open>{ review }\<close>\<close>
  | MovieObj movie_with_reviews      \<comment> \<open>\<^verbatim>\<open>{ movie }\<close>\<close>
  | MoviesJson "movie list"
  | ErrorObj string                  \<comment> \<open>\<^verbatim>\<open>{ error: ... }\<close>\<close>
  | MessageObj string                \<comment> \<open>\<^verbatim>\<open>{ message: ... }\<close>\<close>
  | NoBody

record cookie_options =
  httpOnly :: bool
  secure :: bool

record response =
  status :: nat
  cookies :: "(string \<times> string \<times> cookie_options) list"
  content :: json

definition reply :: "nat \<Rightarrow> json \<Rightarrow> response" where
  "reply st j = \<lparr>status = st, cookies = [], content = j\<rparr>"

text \<open>
  What the controllers take from outside the two source files: the hashing and token
  helpers of \<^verbatim>\<open>authUtils.js\<close>, \<^verbatim>\<open>bcrypt.hash\<close>, \<^verbatim>\<open>jwt.verify\<close> and the process
  configuration. None of them is in the sources, so each is a parameter. A call
  that raises returns \<open>Inl\<close>; \<open>jwt_verify\<close> returns \<open>Inr None\<close> when it passes an error
  to its callback and \<open>Inr (Some u)\<close> when it passes the decoded payload.
  Two of the names are bound nowhere in the sources: \<^verbatim>\<open>verifyToken\<close> is called by
  \<^verbatim>\<open>createReview\<close> and is neither imported nor defined in the controller module, and
  \<^verbatim>\<open>jwt\<close> is used by the middleware, which imports nothing. Calling an unbound name
  raises a ReferenceError: that is the parameter which returns \<open>Inl ReferenceError\<close>.
\<close>

record env =
  bcrypt_hash :: "string \<Rightarrow> nat \<Rightarrow> string"
  verifyPassword :: "string option \<Rightarrow> string \<Rightarrow> thrown + bool"
  generateAccessToken :: "int \<Rightarrow> thrown + string"
  generateRefreshToken :: "int \<Rightarrow> thrown + string"
  jwt_verify :: "string \<Rightarrow> string option \<Rightarrow> thrown + payload option"
  verifyToken :: "string \<Rightarrow> thrown + payload"
  NODE_ENV :: "string option"
  ACCESS_TOKEN_SECRET :: "string option"

section \<open>The Auth Gate\<close>

text \<open>The middleware ends in \<^verbatim>\<open>res.sendStatus\<close>, in \<^verbatim>\<open>next()\<close> with the request it has
  extended, or in an exception.\<close>

datatype gate = SendStatus nat | Next request | Raise thrown

definition authenticateToken :: "env \<Rightarrow> request \<Rightarrow> gate" where
  "authenticateToken e req =
     (case accessToken req of
        None \<Rightarrow> SendStatus 401
      | Some token \<Rightarrow>
          if token = [] then SendStatus 401
          else (case jwt_verify e token (ACCESS_TOKEN_SECRET e) of
                  Inl err \<Rightarrow> Raise err
                | Inr None \<Rightarrow> SendStatus 403
                | Inr (Some u) \<Rightarrow> Next (req\<lparr>req_user := Some u\<rparr>)))"

section \<open>User controller\<close>

definition generateAccessAndRefreshTokens :: "env \<Rightarrow> store \<Rightarrow> int \<Rightarrow> (thrown + string \<times> string) \<times> store" where
  \<comment> \<open>Whatever is thrown inside the \<^verbatim>\<open>try\<close> block, the \<^verbatim>\<open>ApiError(404)\<close> included, is
      caught and replaced by the \<^verbatim>\<open>ApiError(500)\<close>.\<close>
  "generateAccessAndRefreshTokens e s userId =
     (let failed = (Inl (ApiError 500 ''Something went wrong while generating refresh and access tokens''), s) in
      case user_findUnique (Some userId) (users s) of
        Inl _ \<Rightarrow> failed
      | Inr None \<Rightarrow> failed
      | Inr (Some _) \<Rightarrow>
          (case generateAccessToken e userId of
             Inl _ \<Rightarrow> failed
           | Inr at \<Rightarrow>
               (case generateRefreshToken e userId of
                  Inl _ \<Rightarrow> failed
                | Inr rt \<Rightarrow>
                    (case user_update_refreshToken s userId rt of
                       Inl _ \<Rightarrow> failed
                     | Inr s' \<Rightarrow> (Inr (at, rt), s')))))"

fun some_blank :: "string option list \<Rightarrow> thrown + bool" where
  \<comment> \<open>\<^verbatim>\<open>fields.some(field => !field.trim())\<close>: stops at the first blank field, and
      \<^verbatim>\<open>undefined.trim()\<close> raises a TypeError when it is reached.\<close>
  "some_blank [] = Inr False"
| "some_blank (None # fs) = Inl TypeError"
| "some_blank (Some f # fs) = (if trim f = [] then Inr True else some_blank fs)"

definition registerUser :: "env \<Rightarrow> store \<Rightarrow> request \<Rightarrow> (thrown + response) \<times> store" where
  \<comment> \<open>The function wrapped by \<^verbatim>\<open>asyncHandler\<close>: \<open>Inl\<close> is what it throws.
      \<^verbatim>\<open>prisma.user.create\<close> returns the created row or throws, so the \<^verbatim>\<open>!user\<close> branch
      is never taken.\<close>
  "registerUser e s req =
     (case some_blank [fullName (body req), email (body req), username (body req), password (body req)] of
        Inl err \<Rightarrow> (Inl err, s)
      | Inr True \<Rightarrow> (Inl (ApiError 400 ''All fields are required''), s)
      | Inr False \<Rightarrow>
          (case (fullName (body req), email (body req), username (body req), password (body req)) of
             (Some fn, Some em, Some un, Some pw) \<Rightarrow>
               (case user_findFirst_OR (Some (toLowerCase un)) (Some em) (users s) of
                  Some _ \<Rightarrow> (Inl (ApiError 409 ''User with email or username already exists''), s)
                | None \<Rightarrow>
                    (case user_create s fn em (toLowerCase un) (bcrypt_hash e pw 10) of
                       Inl err \<Rightarrow> (Inl err, s)
                     | Inr (u, s') \<Rightarrow>
                         (Inr (reply 201
                                 (ApiResponse 200 (CreatedUser ((spread u)\<lparr>ju_password := None\<rparr>))
                                    ''User registered successfully'')),
                          s')))
           | _ \<Rightarrow> (Inl TypeError, s)))"

definition options :: "env \<Rightarrow> cookie_options" where
  "options e = \<lparr>httpOnly = True, secure = (NODE_ENV e = Some ''production'')\<rparr>"

definition loginUser :: "env \<Rightarrow> store \<Rightarrow> request \<Rightarrow> (thrown + response) \<times> store" where
  "loginUser e s req =
     (if \<not> truthy (username (body req)) \<and> \<not> truthy (email (body req))
      then (Inl (ApiError 400 ''Username or Email is required''), s)
      else
        (case user_findFirst_OR (username (body req)) (email (body req)) (users s) of
           None \<Rightarrow> (Inl (ApiError 404 ''User does not exist''), s)
         | Some u \<Rightarrow>
             (case verifyPassword e (password (body req)) (u_password u) of
                Inl err \<Rightarrow> (Inl err, s)
              | Inr False \<Rightarrow> (Inl (ApiError 401 ''Invalid user credentials''), s)
              | Inr True \<Rightarrow>
                  (case generateAccessAndRefreshTokens e s (u_id u) of
                     (Inl err, s') \<Rightarrow> (Inl err, s')
                   | (Inr (at, rt), s') \<Rightarrow>
                       (Inr \<lparr>status = 200,
                             cookies = [(''accessToken'', at, options e), (''refreshToken'', rt, options e)],
                             content = ApiResponse 200
                               (LoggedIn ((spread u)\<lparr>ju_password := None, ju_refreshToken := None\<rparr>) at rt)
                               ''User logged in successfully''\<rparr>,
                        s')))))"

definition getcurrentUser :: "store \<Rightarrow> request \<Rightarrow> response" where
  \<comment> \<open>\<^verbatim>\<open>req.user._id\<close> is read inside the \<^verbatim>\<open>try\<close> block, so a missing \<^verbatim>\<open>req.user\<close> ends
      in the \<^verbatim>\<open>catch\<close> branch as well.\<close>
  "getcurrentUser s req =
     (case req_user req of
        None \<Rightarrow> reply 500 (MessageObj ''Internal server error'')
      | Some p \<Rightarrow>
          (case user_findUnique (pl_id p) (users s) of
             Inl _ \<Rightarrow> reply 500 (MessageObj ''Internal server error'')
           | Inr u \<Rightarrow> reply 200 (UserJson (map_option spread u))))"

section \<open>Review controller\<close>

definition getMovieWithReviews :: "store \<Rightarrow> request \<Rightarrow> response" where
  "getMovieWithReviews s req =
     (case movie_findUnique_reviews (parseInt (p_id (params req))) s of
        Inl _ \<Rightarrow> reply 500 (ErrorObj ''Internal server error'')
      | Inr None \<Rightarrow> reply 404 (ErrorObj ''Movie not found'')
      | Inr (Some m) \<Rightarrow> reply 200 (MovieObj m))"

definition bearer :: "request \<Rightarrow> string option" where
  \<comment> \<open>\<^verbatim>\<open>req.headers.authorization?.split(' ')[1]\<close>\<close>
  "bearer req =
     (case authorization req of None \<Rightarrow> None | Some h \<Rightarrow> at_index (split (CHR '' '') h) 1)"

definition createReview :: "env \<Rightarrow> store \<Rightarrow> request \<Rightarrow> response \<times> store" where
  "createReview e s req =
     (case bearer req of
        None \<Rightarrow> (reply 401 (ErrorObj ''No token provided''), s)
      | Some token \<Rightarrow>
          if token = [] then (reply 401 (ErrorObj ''No token provided''), s)
          else
            (case verifyToken e token of
               Inl _ \<Rightarrow> (reply 500 (ErrorObj ''Internal server error''), s)
             | Inr decoded \<Rightarrow>
                 (case review_create s (parseInt (p_id (params req))) (reviewText (body req))
                         (rating (body req)) (pl_id decoded) of
                    Inl _ \<Rightarrow> (reply 500 (ErrorObj ''Internal server error''), s)
                  | Inr (r, s') \<Rightarrow> (reply 201 (ReviewObj r), s'))))"

definition updateReview :: "store \<Rightarrow> request \<Rightarrow> response \<times> store" where
  "updateReview s req =
     (case review_update s (parseInt (p_reviewId (params req))) (reviewText (body req)) (rating (body req)) of
        Inl _ \<Rightarrow> (reply 500 (MessageObj ''Failed to update review''), s)
      | Inr (r, s') \<Rightarrow> (reply 200 (ReviewJson r), s'))"

definition deleteReview :: "store \<Rightarrow> request \<Rightarrow> response \<times> store" where
  "deleteReview s req =
     (case review_delete s (parseInt (p_reviewId (params req))) of
        Inl _ \<Rightarrow> (reply 500 (MessageObj ''Failed to delete review''), s)
      | Inr s' \<Rightarrow> (reply 204 NoBody, s'))"

definition getMovieWithDetails :: "store \<Rightarrow> response" where
  "getMovieWithDetails s = reply 200 (MoviesJson (movies s))"

section \<open>Sample environment, stores and requests\<close>

text \<open>
  A concrete environment for evaluating the controllers: hashing prefixes the password,
  and user 1 and user 2 are issued one access token and one refresh token each. The
  two names the sources leave unbound raise a ReferenceError when called.
\<close>

definition sample_env :: env where
  "sample_env =
     \<lparr>bcrypt_hash = (\<lambda>pw cost. ''h:'' @ pw),
      verifyPassword = (\<lambda>pw h. case pw of None \<Rightarrow> Inl TypeError | Some p \<Rightarrow> Inr (h = ''h:'' @ p)),
      generateAccessToken = (\<lambda>i. Inr (if i = 1 then ''access-1'' else ''access-2'')),
      generateRefreshToken = (\<lambda>i. Inr (if i = 1 then ''refresh-1'' else ''refresh-2'')),
      jwt_verify = (\<lambda>t k. Inl ReferenceError),
      verifyToken = (\<lambda>t. Inl ReferenceError),
      NODE_ENV = Some ''production'',
      ACCESS_TOKEN_SECRET = Some ''secret''\<rparr>"

definition empty_store :: store where
  "empty_store = \<lparr>users = [], movies = [], reviews = [], next_user_id = 1, next_review_id = 1\<rparr>"

definition alice :: user where
  "alice = \<lparr>u_id = 1, u_fullName = ''A'', u_email = ''a@x.com'', u_username = ''a1'',
            u_password = ''h:pw'', u_refreshToken = None\<rparr>"

definition bob :: user where
  "bob = \<lparr>u_id = 2, u_fullName = ''B'', u_email = ''b@x.com'', u_username = ''b2'',
          u_password = ''h:pw2'', u_refreshToken = Some ''refresh-2''\<rparr>"

definition review7 :: review where
  "review7 = \<lparr>r_id = 7, r_movieId = 5, r_userId = 1, r_reviewText = ''good'', r_rating = 4\<rparr>"

definition review8 :: review where
  "review8 = \<lparr>r_id = 8, r_movieId = 5, r_userId = 2, r_reviewText = ''dull'', r_rating = 2\<rparr>"

definition sample_store :: store where
  "sample_store =
     \<lparr>users = [alice, bob], movies = [\<lparr>m_id = 5, m_title = ''Heat''\<rparr>],
      reviews = [review7, review8], next_user_id = 3, next_review_id = 9\<rparr>"

definition no_body :: req_body where
  "no_body = \<lparr>fullName = None, email = None, username = None, password = None,
              reviewText = None, rating = None\<rparr>"

definition blank_request :: request where
  "blank_request =
     \<lparr>params = \<lparr>p_id = None, p_reviewId = None\<rparr>, body = no_body, authorization = None,
      accessToken = None, req_user = None\<rparr>"

definition login_alice :: request where
  "login_alice = blank_request\<lparr>body := no_body\<lparr>username := Some ''a1'', password := Some ''pw''\<rparr>\<rparr>"

definition alice_logged_in :: response where
  "alice_logged_in =
     \<lparr>status = 200,
      cookies = [(''accessToken'', ''access-1'', \<lparr>httpOnly = True, secure = True\<rparr>),
                 (''refreshToken'', ''refresh-1'', \<lparr>httpOnly = True, secure = True\<rparr>)],
      content = ApiResponse 200
        (LoggedIn \<lparr>ju_id = 1, ju_fullName = ''A'', ju_email = ''a@x.com'', ju_username = ''a1'',
                   ju_password = None, ju_refreshToken = None\<rparr> ''access-1'' ''refresh-1'')
        ''User logged in successfully''\<rparr>"

definition store_after_login :: store where
  "store_after_login = sample_store\<lparr>users := [alice\<lparr>u_refreshToken := Some ''refresh-1''\<rparr>, bob]\<rparr>"

definition update7 :: request where
  "update7 = blank_request\<lparr>params := \<lparr>p_id = None, p_reviewId = Some ''7''\<rparr>,
                            body := no_body\<lparr>reviewText := Some ''superb'', rating := Some 5\<rparr>\<rparr>"

definition by_alice :: request where
  "by_alice = update7\<lparr>accessToken := Some ''access-1'', req_user := Some \<lparr>pl_id = Some 1\<rparr>\<rparr>"

definition by_bob :: request where
  "by_bob = update7\<lparr>accessToken := Some ''access-2'', req_user := Some \<lparr>pl_id = Some 2\<rparr>\<rparr>"

definition movie5 :: request where
  "movie5 = blank_request\<lparr>params := \<lparr>p_id = Some ''5'', p_reviewId = None\<rparr>\<rparr>"

definition review7_updated :: review where
  "review7_updated = review7\<lparr>r_reviewText := ''superb'', r_rating := 5\<rparr>"

definition store_after_update :: store where
  "store_after_update = sample_store\<lparr>reviews := [review7_updated, review8]\<rparr>"

definition store_after_delete :: store where
  "store_after_delete = sample_store\<lparr>reviews := [review8]\<rparr>"

definition movie5_reviews :: movie_with_reviews where
  "movie5_reviews = \<lparr>mw_movie = \<lparr>m_id = 5, m_title = ''Heat''\<rparr>, mw_reviews = [(review8, Some bob)]\<rparr>"

definition register_A1 :: request where
  "register_A1 = blank_request\<lparr>body := no_body\<lparr>fullName := Some ''A'', email := Some ''a@x.com'',
                                                  username := Some ''A1'', password := Some ''pw''\<rparr>\<rparr>"

definition login_A1 :: request where
  "login_A1 = blank_request\<lparr>body := no_body\<lparr>username := Some ''A1'', password := Some ''pw''\<rparr>\<rparr>"

definition alice_created :: response where
  "alice_created =
     reply 201 (ApiResponse 200
       (CreatedUser \<lparr>ju_id = 1, ju_fullName = ''A'', ju_email = ''a@x.com'', ju_username = ''a1'',
                     ju_password = None, ju_refreshToken = None\<rparr>)
       ''User registered successfully'')"

definition store_alice :: store where
  "store_alice = empty_store\<lparr>users := [alice], next_user_id := 2\<rparr>"

definition register_variant :: request where
  "register_variant = blank_request\<lparr>body := no_body\<lparr>fullName := Some ''C'', email := Some ''A@X.COM'',
                                                       username := Some ''c3'', password := Some ''pw3''\<rparr>\<rparr>"

definition carol :: user where
  "carol = \<lparr>u_id = 3, u_fullName = ''C'', u_email = ''A@X.COM'', u_username = ''c3'',
            u_password = ''h:pw3'', u_refreshToken = None\<rparr>"

definition register_again :: request where
  "register_again = blank_request\<lparr>body := no_body\<lparr>fullName := Some ''A'', email := Some ''new@x.com'',
                                                     username := Some ''A1'', password := Some ''pw''\<rparr>\<rparr>"

definition register_blank :: request where
  "register_blank = blank_request\<lparr>body := no_body\<lparr>fullName := Some ''  '', email := Some ''new@x.com'',
                                                     username := Some ''a1'', password := Some ''pw''\<rparr>\<rparr>"

definition register_no_password :: request where
  "register_no_password = blank_request\<lparr>body := no_body\<lparr>fullName := Some ''A'', email := Some ''new@x.com'',
                                                           username := Some ''a1''\<rparr>\<rparr>"

definition zoe :: user where
  "zoe = \<lparr>u_id = 3, u_fullName = ''Z'', u_email = ''z@x.com'', u_username = ''Zoe'',
          u_password = ''h:pw'', u_refreshToken = None\<rparr>"

definition store_zoe :: store where
  "store_zoe = sample_store\<lparr>users := [alice, bob, zoe], next_user_id := 4\<rparr>"

definition register_Zoe :: request where
  "register_Zoe = blank_request\<lparr>body := no_body\<lparr>fullName := Some ''Z'', email := Some ''z2@x.com'',
                                                   username := Some ''Zoe'', password := Some ''pw''\<rparr>\<rparr>"

definition zoe2 :: user where
  "zoe2 = \<lparr>u_id = 4, u_fullName = ''Z'', u_email = ''z2@x.com'', u_username = ''zoe'',
           u_password = ''h:pw'', u_refreshToken = None\<rparr>"

definition review_body :: req_body where
  "review_body = no_body\<lparr>reviewText := Some ''fine'', rating := Some 3\<rparr>"

definition cookie_only :: request where
  "cookie_only = blank_request\<lparr>params := \<lparr>p_id = Some ''5'', p_reviewId = None\<rparr>,
                                body := review_body, accessToken := Some ''access-1'',
                                req_user := Some \<lparr>pl_id = Some 1\<rparr>\<rparr>"

definition with_header :: request where
  "with_header = cookie_only\<lparr>authorization := Some ''Bearer access-1''\<rparr>"

lemmas sample_defs = sample_env_def empty_store_def alice_def bob_def
  review7_def review8_def sample_store_def no_body_def blank_request_def

section \<open>Login\<close>

lemma findFirst_none:
  "(\<forall>u \<in> set us. uname \<noteq> Some (u_username u) \<and> mail \<noteq> Some (u_email u)) \<Longrightarrow>
   user_findFirst_OR uname mail us = None"
  by (simp add: user_findFirst_OR_def find_None_iff)

text \<open>
  C6. The three failures of a login request. When neither \<^verbatim>\<open>username\<close> nor \<^verbatim>\<open>email\<close>
  is supplied (each is \<^verbatim>\<open>undefined\<close> or empty), \<^verbatim>\<open>ApiError(400)\<close> is thrown. When one is
  supplied and no stored user has that username or that email, \<^verbatim>\<open>ApiError(404)\<close> is
  thrown. When the lookup returns a user and password verification answers
  \<^verbatim>\<open>false\<close>, \<^verbatim>\<open>ApiError(401)\<close> is thrown. In all three cases the handler throws instead
  of responding, so no token and no cookie is issued, and the store it leaves is the
  store it was given.
\<close>

theorem loginUser_failures:
  "(\<not> truthy (username (body req)) \<and> \<not> truthy (email (body req)) \<longrightarrow>
      loginUser e s req = (Inl (ApiError 400 ''Username or Email is required''), s)) \<and>
   ((truthy (username (body req)) \<or> truthy (email (body req))) \<and>
    (\<forall>u \<in> set (users s). username (body req) \<noteq> Some (u_username u) \<and> email (body req) \<noteq> Some (u_email u)) \<longrightarrow>
      loginUser e s req = (Inl (ApiError 404 ''User does not exist''), s)) \<and>
   ((truthy (username (body req)) \<or> truthy (email (body req))) \<and>
    user_findFirst_OR (username (body req)) (email (body req)) (users s) = Some u \<and>
    verifyPassword e (password (body req)) (u_password u) = Inr False \<longrightarrow>
      loginUser e s req = (Inl (ApiError 401 ''Invalid user credentials''), s))"
proof (intro conjI impI)
  assume "\<not> truthy (username (body req)) \<and> \<not> truthy (email (body req))"
  then show "loginUser e s req = (Inl (ApiError 400 ''Username or Email is required''), s)"
    by (simp add: loginUser_def)
next
  assume h: "(truthy (username (body req)) \<or> truthy (email (body req))) \<and>
    (\<forall>u \<in> set (users s). username (body req) \<noteq> Some (u_username u) \<and> email (body req) \<noteq> Some (u_email u))"
  then have "user_findFirst_OR (username (body req)) (email (body req)) (users s) = None"
    by (simp add: findFirst_none)
  with h show "loginUser e s req = (Inl (ApiError 404 ''User does not exist''), s)"
    by (auto simp: loginUser_def)
next
  assume "(truthy (username (body req)) \<or> truthy (email (body req))) \<and>
    user_findFirst_OR (username (body req)) (email (body req)) (users s) = Some u \<and>
    verifyPassword e (password (body req)) (u_password u) = Inr False"
  then show "loginUser e s req = (Inl (ApiError 401 ''Invalid user credentials''), s)"
    by (auto simp: loginUser_def)
qed

theorem loginUser_failures_witness:
  "loginUser sample_env sample_store blank_request
     = (Inl (ApiError 400 ''Username or Email is required''), sample_store) \<and>
   loginUser sample_env sample_store (blank_request\<lparr>body := no_body\<lparr>username := Some ''zed''\<rparr>\<rparr>)
     = (Inl (ApiError 404 ''User does not exist''), sample_store) \<and>
   loginUser sample_env sample_store
       (blank_request\<lparr>body := no_body\<lparr>email := Some ''a@x.com'', password := Some ''bad''\<rparr>\<rparr>)
     = (Inl (ApiError 401 ''Invalid user credentials''), sample_store)"
proof -
  have a: "loginUser sample_env sample_store blank_request
     = (Inl (ApiError 400 ''Username or Email is required''), sample_store)"
    using loginUser_failures [of blank_request sample_env sample_store]
    by (simp add: sample_defs truthy_def)
  have b: "loginUser sample_env sample_store (blank_request\<lparr>body := no_body\<lparr>username := Some ''zed''\<rparr>\<rparr>)
     = (Inl (ApiError 404 ''User does not exist''), sample_store)"
    using loginUser_failures [of "blank_request\<lparr>body := no_body\<lparr>username := Some ''zed''\<rparr>\<rparr>" sample_env sample_store]
    by (simp add: sample_defs truthy_def)
  have c: "loginUser sample_env sample_store
       (blank_request\<lparr>body := no_body\<lparr>email := Some ''a@x.com'', password := Some ''bad''\<rparr>\<rparr>)
     = (Inl (ApiError 401 ''Invalid user credentials''), sample_store)"
    using loginUser_failures [of "blank_request\<lparr>body := no_body\<lparr>email := Some ''a@x.com'', password := Some ''bad''\<rparr>\<rparr>"
        sample_env sample_store alice]
    by (simp add: sample_defs truthy_def user_findFirst_OR_def)
  from a b c show ?thesis by simp
qed

lemma tokens_result:
  "generateAccessAndRefreshTokens e s k = (Inr (at, rt), s') \<Longrightarrow>
   generateAccessToken e k = Inr at \<and> generateRefreshToken e k = Inr rt \<and>
   list_ex (\<lambda>x. u_id x = k) (users s) \<and>
   s' = s\<lparr>users := map (\<lambda>x. if u_id x = k then x\<lparr>u_refreshToken := Some rt\<rparr> else x) (users s)\<rparr>"
  by (auto simp: generateAccessAndRefreshTokens_def user_update_refreshToken_def Let_def
      split: sum.splits option.splits if_splits)

lemma refresh_keeps_ids:
  "list_ex (\<lambda>x. u_id x = k) (map (\<lambda>x. if u_id x = k then x\<lparr>u_refreshToken := v\<rparr> else x) us)
     = list_ex (\<lambda>x. u_id x = k) us"
  by (induction us) auto

lemma refresh_sets_all:
  "list_all (\<lambda>x. u_id x = k \<longrightarrow> u_refreshToken x = v)
     (map (\<lambda>x. if u_id x = k then x\<lparr>u_refreshToken := v\<rparr> else x) us)"
  by (induction us) auto

text \<open>
  C7. A login that responds: the status is 200; the body carries the user that the
  lookup returned, with \<^verbatim>\<open>password\<close> and \<^verbatim>\<open>refreshToken\<close> blanked, and the two tokens
  the helpers issued for that user's id; the same two tokens are set as the cookies
  \<^verbatim>\<open>accessToken\<close> and \<^verbatim>\<open>refreshToken\<close>, with \<^verbatim>\<open>httpOnly\<close> true and \<^verbatim>\<open>secure\<close> true exactly
  when \<^verbatim>\<open>NODE_ENV\<close> is \<^verbatim>\<open>production\<close> (outside a local or development run); and in the
  store that results, a row with the user's id exists and every such row holds the
  issued refresh token.
\<close>

theorem loginUser_success:
  assumes "loginUser e s req = (Inr resp, s')"
  shows "\<exists>u at rt.
     user_findFirst_OR (username (body req)) (email (body req)) (users s) = Some u \<and>
     generateAccessToken e (u_id u) = Inr at \<and> generateRefreshToken e (u_id u) = Inr rt \<and>
     status resp = 200 \<and>
     content resp = ApiResponse 200
       (LoggedIn \<lparr>ju_id = u_id u, ju_fullName = u_fullName u, ju_email = u_email u,
                  ju_username = u_username u, ju_password = None, ju_refreshToken = None\<rparr> at rt)
       ''User logged in successfully'' \<and>
     cookies resp =
       [(''accessToken'', at, \<lparr>httpOnly = True, secure = (NODE_ENV e = Some ''production'')\<rparr>),
        (''refreshToken'', rt, \<lparr>httpOnly = True, secure = (NODE_ENV e = Some ''production'')\<rparr>)] \<and>
     users s' = map (\<lambda>x. if u_id x = u_id u then x\<lparr>u_refreshToken := Some rt\<rparr> else x) (users s) \<and>
     list_ex (\<lambda>x. u_id x = u_id u) (users s') \<and>
     list_all (\<lambda>x. u_id x = u_id u \<longrightarrow> u_refreshToken x = Some rt) (users s')"
proof -
  from assms obtain u where
    u: "user_findFirst_OR (username (body req)) (email (body req)) (users s) = Some u"
    by (auto simp: loginUser_def split: if_splits option.splits)
  from assms u obtain at rt where
    g: "generateAccessAndRefreshTokens e s (u_id u) = (Inr (at, rt), s')" and
    r: "resp = \<lparr>status = 200,
          cookies = [(''accessToken'', at, options e), (''refreshToken'', rt, options e)],
          content = ApiResponse 200
            (LoggedIn ((spread u)\<lparr>ju_password := None, ju_refreshToken := None\<rparr>) at rt)
            ''User logged in successfully''\<rparr>"
    by (auto simp: loginUser_def split: if_splits sum.splits bool.splits prod.splits)
  note t = tokens_result [OF g]
  from t have us: "users s' = map (\<lambda>x. if u_id x = u_id u then x\<lparr>u_refreshToken := Some rt\<rparr> else x) (users s)"
    by simp
  from t have ex: "list_ex (\<lambda>x. u_id x = u_id u) (users s')"
    unfolding us by (simp add: refresh_keeps_ids)
  have al: "list_all (\<lambda>x. u_id x = u_id u \<longrightarrow> u_refreshToken x = Some rt) (users s')"
    unfolding us by (rule refresh_sets_all)
  from u t r us ex al show ?thesis
    by (simp add: options_def spread_def)
qed

lemma login_alice_eval:
  "loginUser sample_env sample_store login_alice = (Inr alice_logged_in, store_after_login)"
  by (simp add: loginUser_def login_alice_def alice_logged_in_def store_after_login_def
      sample_defs truthy_def user_findFirst_OR_def
      generateAccessAndRefreshTokens_def user_findUnique_def user_update_refreshToken_def
      options_def spread_def)

theorem loginUser_success_witness:
  "loginUser sample_env sample_store login_alice = (Inr alice_logged_in, store_after_login) \<and>
   (\<exists>at rt. status alice_logged_in = 200 \<and>
      content alice_logged_in = ApiResponse 200
        (LoggedIn \<lparr>ju_id = 1, ju_fullName = ''A'', ju_email = ''a@x.com'', ju_username = ''a1'',
                   ju_password = None, ju_refreshToken = None\<rparr> at rt)
        ''User logged in successfully'' \<and>
      cookies alice_logged_in =
        [(''accessToken'', at, \<lparr>httpOnly = True, secure = True\<rparr>),
         (''refreshToken'', rt, \<lparr>httpOnly = True, secure = True\<rparr>)] \<and>
      users store_after_login = [alice\<lparr>u_refreshToken := Some rt\<rparr>, bob])"
proof -
  from loginUser_success [OF login_alice_eval] obtain u at rt where
    u: "user_findFirst_OR (username (body login_alice)) (email (body login_alice)) (users sample_store) = Some u"
    and r: "status alice_logged_in = 200"
      "content alice_logged_in = ApiResponse 200
         (LoggedIn \<lparr>ju_id = u_id u, ju_fullName = u_fullName u, ju_email = u_email u,
                    ju_username = u_username u, ju_password = None, ju_refreshToken = None\<rparr> at rt)
         ''User logged in successfully''"
      "cookies alice_logged_in =
         [(''accessToken'', at, \<lparr>httpOnly = True, secure = (NODE_ENV sample_env = Some ''production'')\<rparr>),
          (''refreshToken'', rt, \<lparr>httpOnly = True, secure = (NODE_ENV sample_env = Some ''production'')\<rparr>)]"
      "users store_after_login =
         map (\<lambda>x. if u_id x = u_id u then x\<lparr>u_refreshToken := Some rt\<rparr> else x) (users sample_store)"
    by blast
  from u have "u = alice"
    by (simp add: login_alice_def sample_defs user_findFirst_OR_def)
  with r login_alice_eval show ?thesis
    by (simp add: sample_defs)
qed

section \<open>The current user\<close>

text \<open>
  C10. For a request whose attached identity carries the id of a stored user,
  \<^verbatim>\<open>getcurrentUser\<close> responds 200 with that row as it is stored: the hashed \<^verbatim>\<open>password\<close>
  and the persisted \<^verbatim>\<open>refreshToken\<close> are in the body, not blanked as they are in the
  login response.
\<close>

theorem getcurrentUser_unstripped:
  assumes "req_user req = Some p" and "pl_id p = Some k"
    and "find (\<lambda>u. u_id u = k) (users s) = Some u"
  shows "getcurrentUser s req =
     \<lparr>status = 200, cookies = [],
      content = UserJson (Some \<lparr>ju_id = u_id u, ju_fullName = u_fullName u, ju_email = u_email u,
                               ju_username = u_username u, ju_password = Some (u_password u),
                               ju_refreshToken = u_refreshToken u\<rparr>)\<rparr>"
  using assms by (simp add: getcurrentUser_def user_findUnique_def reply_def spread_def)

theorem getcurrentUser_unstripped_witness:
  "getcurrentUser sample_store (blank_request\<lparr>req_user := Some \<lparr>pl_id = Some 2\<rparr>\<rparr>) =
     \<lparr>status = 200, cookies = [],
      content = UserJson (Some \<lparr>ju_id = 2, ju_fullName = ''B'', ju_email = ''b@x.com'',
                               ju_username = ''b2'', ju_password = Some ''h:pw2'',
                               ju_refreshToken = Some ''refresh-2''\<rparr>)\<rparr>"
  using getcurrentUser_unstripped [of "blank_request\<lparr>req_user := Some \<lparr>pl_id = Some 2\<rparr>\<rparr>"
      "\<lparr>pl_id = Some 2\<rparr>" 2 sample_store bob]
  by (simp add: sample_defs)

section \<open>Review mutations\<close>

lemma parseInt_7: "parseInt (Some ''7'') = Some 7"
  by code_simp

lemma parseInt_5: "parseInt (Some ''5'') = Some 5"
  by code_simp

lemma r_id_set_fields: "r_id (set_fields t g r) = r_id r"
  by (simp add: set_fields_def)

lemma set_fields_idem: "set_fields t g (set_fields t g r) = set_fields t g r"
  by (simp add: set_fields_def split: option.splits)

lemma find_map_update:
  "find (\<lambda>r. r_id r = k) (map (\<lambda>x. if r_id x = k then set_fields t g x else x) rs)
     = map_option (set_fields t g) (find (\<lambda>r. r_id r = k) rs)"
  by (induction rs) (simp_all add: r_id_set_fields)

lemma map_update_idem:
  "map (\<lambda>x. if r_id x = k then set_fields t g x else x)
     (map (\<lambda>x. if r_id x = k then set_fields t g x else x) rs)
   = map (\<lambda>x. if r_id x = k then set_fields t g x else x) rs"
  by (induction rs) (simp_all add: set_fields_idem r_id_set_fields)

lemma review_update_found:
  "find (\<lambda>r. r_id r = k) (reviews s) = Some r \<Longrightarrow>
   review_update s (Some k) t g =
     Inr (set_fields t g r,
          s\<lparr>reviews := map (\<lambda>x. if r_id x = k then set_fields t g x else x) (reviews s)\<rparr>)"
  by (simp add: review_update_def)

text \<open>
  C9. \<^verbatim>\<open>updateReview\<close> is idempotent. When the \<^verbatim>\<open>reviewId\<close> parameter parses to the id
  of a stored review, the update responds 200 with the review carrying the new
  \<^verbatim>\<open>reviewText\<close> and \<^verbatim>\<open>rating\<close>, that review is what the store then holds under the id,
  and applying the same update to the resulting store gives the same response and
  leaves the store as it is.
\<close>

theorem updateReview_idempotent:
  assumes "parseInt (p_reviewId (params req)) = Some k"
    and "find (\<lambda>r. r_id r = k) (reviews s) = Some r"
    and "updateReview s req = (resp, s')"
  shows "resp = reply 200 (ReviewJson (set_fields (reviewText (body req)) (rating (body req)) r)) \<and>
         find (\<lambda>r. r_id r = k) (reviews s') = Some (set_fields (reviewText (body req)) (rating (body req)) r) \<and>
         updateReview s' req = (resp, s')"
proof -
  let ?t = "reviewText (body req)" and ?g = "rating (body req)"
  let ?f = "\<lambda>x. if r_id x = k then set_fields ?t ?g x else x"
  from assms have resp: "resp = reply 200 (ReviewJson (set_fields ?t ?g r))"
    and s': "s' = s\<lparr>reviews := map ?f (reviews s)\<rparr>"
    by (auto simp: updateReview_def review_update_found)
  have found: "find (\<lambda>r. r_id r = k) (reviews s') = Some (set_fields ?t ?g r)"
    using assms(2) by (simp add: s' find_map_update)
  have "review_update s' (Some k) ?t ?g = Inr (set_fields ?t ?g r, s')"
    using review_update_found [OF found, of ?t ?g]
    by (simp add: set_fields_idem s' map_update_idem)
  with assms(1) have "updateReview s' req = (resp, s')"
    by (simp add: updateReview_def resp)
  with resp found show ?thesis by simp
qed

text \<open>
  C4. The outcome of a review mutation does not depend on who asks. Two requests with
  the same parameters and body, whatever identity, cookie or header each carries,
  get the same response and the same resulting store from \<^verbatim>\<open>updateReview\<close>, and the
  same from \<^verbatim>\<open>deleteReview\<close>; when the \<^verbatim>\<open>reviewId\<close> parameter parses to the id of a
  stored review, the update succeeds with 200 and the deletion with 204, whoever
  owns the review.
\<close>

theorem review_mutation_ignores_identity:
  assumes "params r1 = params r2" and "body r1 = body r2"
    and "parseInt (p_reviewId (params r1)) = Some k"
    and "find (\<lambda>r. r_id r = k) (reviews s) = Some rv"
  shows "updateReview s r1 = updateReview s r2 \<and>
         updateReview s r1 =
           (reply 200 (ReviewJson (set_fields (reviewText (body r1)) (rating (body r1)) rv)),
            s\<lparr>reviews := map (\<lambda>x. if r_id x = k then set_fields (reviewText (body r1)) (rating (body r1)) x else x)
                            (reviews s)\<rparr>) \<and>
         deleteReview s r1 = deleteReview s r2 \<and>
         deleteReview s r1 = (reply 204 NoBody, s\<lparr>reviews := filter (\<lambda>r. r_id r \<noteq> k) (reviews s)\<rparr>)"
proof -
  from assms(4) have ex: "list_ex (\<lambda>r. r_id r = k) (reviews s)"
    by (auto simp: list_ex_iff find_Some_iff)
  have u: "updateReview s r1 = updateReview s r2" and d: "deleteReview s r1 = deleteReview s r2"
    using assms(1,2) by (simp_all add: updateReview_def deleteReview_def)
  from assms(3,4) have "updateReview s r1 =
           (reply 200 (ReviewJson (set_fields (reviewText (body r1)) (rating (body r1)) rv)),
            s\<lparr>reviews := map (\<lambda>x. if r_id x = k then set_fields (reviewText (body r1)) (rating (body r1)) x else x)
                            (reviews s)\<rparr>)"
    by (simp add: updateReview_def review_update_found)
  moreover from assms(3) ex have "deleteReview s r1 = (reply 204 NoBody, s\<lparr>reviews := filter (\<lambda>r. r_id r \<noteq> k) (reviews s)\<rparr>)"
    by (simp add: deleteReview_def review_delete_def)
  ultimately show ?thesis using u d by simp
qed

text \<open>
  C8. After \<^verbatim>\<open>deleteReview\<close> has succeeded (204) for a review id, the store holds no
  review with that id, and whenever \<^verbatim>\<open>getMovieWithReviews\<close> on the resulting store
  returns a movie, none of its nested reviews has that id.
\<close>

theorem deleteReview_then_getMovieWithReviews:
  assumes "deleteReview s req = (reply 204 NoBody, s')"
    and "getMovieWithReviews s' req' = resp"
    and "content resp = MovieObj mw"
  shows "\<exists>k. parseInt (p_reviewId (params req)) = Some k \<and>
             list_ex (\<lambda>r. r_id r = k) (reviews s) \<and>
             \<not> list_ex (\<lambda>r. r_id r = k) (reviews s') \<and>
             \<not> list_ex (\<lambda>(r, u). r_id r = k) (mw_reviews mw)"
proof -
  from assms(1) obtain k where k: "parseInt (p_reviewId (params req)) = Some k"
    and ex: "list_ex (\<lambda>r. r_id r = k) (reviews s)"
    and s': "s' = s\<lparr>reviews := filter (\<lambda>r. r_id r \<noteq> k) (reviews s)\<rparr>"
    by (auto simp: deleteReview_def review_delete_def reply_def split: option.splits if_splits sum.splits)
  have gone: "\<not> list_ex (\<lambda>r. r_id r = k) (reviews s')"
    by (simp add: s' list_ex_iff)
  from assms(2,3) obtain m :: movie where
    "mw_reviews mw = map (\<lambda>r. (r, find (\<lambda>u. u_id u = r_userId r) (users s')))
                       (filter (\<lambda>r. r_movieId r = m_id m) (reviews s'))"
    by (auto simp: getMovieWithReviews_def movie_findUnique_reviews_def reply_def
        split: option.splits sum.splits)
  with gone have "\<not> list_ex (\<lambda>(r, u). r_id r = k) (mw_reviews mw)"
    by (auto simp: list_ex_iff)
  with k ex gone show ?thesis by blast
qed


lemma find_review7: "find (\<lambda>r. r_id r = 7) (reviews sample_store) = Some review7"
  by (simp add: sample_store_def review7_def)

lemma update7_eval:
  "updateReview sample_store update7 = (reply 200 (ReviewJson review7_updated), store_after_update)"
  by (simp add: updateReview_def update7_def parseInt_7 review_update_def set_fields_def
      review7_updated_def store_after_update_def sample_defs)

lemma delete7_eval:
  "deleteReview sample_store update7 = (reply 204 NoBody, store_after_delete)"
  by (simp add: deleteReview_def update7_def parseInt_7 review_delete_def
      store_after_delete_def sample_defs)

lemma movie5_eval:
  "getMovieWithReviews store_after_delete movie5 = reply 200 (MovieObj movie5_reviews)"
  by (simp add: getMovieWithReviews_def movie5_def parseInt_5 movie_findUnique_reviews_def
      store_after_delete_def movie5_reviews_def sample_defs)

theorem updateReview_idempotent_witness:
  "updateReview sample_store update7 = (reply 200 (ReviewJson review7_updated), store_after_update) \<and>
   find (\<lambda>r. r_id r = 7) (reviews store_after_update) = Some review7_updated \<and>
   updateReview store_after_update update7 = (reply 200 (ReviewJson review7_updated), store_after_update)"
  using updateReview_idempotent [of update7 7 sample_store review7 "reply 200 (ReviewJson review7_updated)" store_after_update]
    find_review7 update7_eval
  by (simp add: update7_def parseInt_7 set_fields_def review7_updated_def sample_defs)

theorem review_mutation_ignores_identity_witness:
  "req_user by_alice = Some \<lparr>pl_id = Some (r_userId review7)\<rparr> \<and>
   req_user by_bob = Some \<lparr>pl_id = Some 2\<rparr> \<and>
   updateReview sample_store by_alice = updateReview sample_store by_bob \<and>
   updateReview sample_store by_alice = (reply 200 (ReviewJson review7_updated), store_after_update) \<and>
   deleteReview sample_store by_alice = deleteReview sample_store by_bob \<and>
   deleteReview sample_store by_alice = (reply 204 NoBody, store_after_delete)"
proof -
  have p: "params by_alice = params by_bob" and b: "body by_alice = body by_bob"
    by (simp_all add: by_alice_def by_bob_def)
  have k: "parseInt (p_reviewId (params by_alice)) = Some 7"
    by (simp add: by_alice_def update7_def parseInt_7)
  have who: "req_user by_alice = Some \<lparr>pl_id = Some (r_userId review7)\<rparr>"
    "req_user by_bob = Some \<lparr>pl_id = Some 2\<rparr>"
    by (simp_all add: by_alice_def by_bob_def review7_def)
  have t: "set_fields (reviewText (body by_alice)) (rating (body by_alice)) review7 = review7_updated"
    by (simp add: by_alice_def update7_def set_fields_def review7_updated_def no_body_def)
  have u: "sample_store\<lparr>reviews := map (\<lambda>x. if r_id x = 7
              then set_fields (reviewText (body by_alice)) (rating (body by_alice)) x else x)
              (reviews sample_store)\<rparr> = store_after_update"
    by (simp add: by_alice_def update7_def set_fields_def review7_updated_def no_body_def
        store_after_update_def sample_store_def review7_def review8_def)
  have d: "sample_store\<lparr>reviews := filter (\<lambda>r. r_id r \<noteq> 7) (reviews sample_store)\<rparr> = store_after_delete"
    by (simp add: store_after_delete_def sample_store_def review7_def review8_def)
  note r = review_mutation_ignores_identity [OF p b k find_review7, unfolded t u d]
  from r who show ?thesis by auto
qed

theorem deleteReview_then_getMovieWithReviews_witness:
  "deleteReview sample_store update7 = (reply 204 NoBody, store_after_delete) \<and>
   getMovieWithReviews store_after_delete movie5 = reply 200 (MovieObj movie5_reviews) \<and>
   list_ex (\<lambda>r. r_id r = 7) (reviews sample_store) \<and>
   \<not> list_ex (\<lambda>r. r_id r = 7) (reviews store_after_delete) \<and>
   \<not> list_ex (\<lambda>(r, u). r_id r = 7) (mw_reviews movie5_reviews)"
  using deleteReview_then_getMovieWithReviews [OF delete7_eval movie5_eval, of movie5_reviews]
    delete7_eval movie5_eval
  by (simp add: reply_def update7_def parseInt_7 blank_request_def)

section \<open>Registration\<close>

lemma lower_A1: "toLowerCase ''A1'' = ''a1''"
  by code_simp

lemma lower_c3: "toLowerCase ''c3'' = ''c3''"
  by code_simp

lemma lower_email: "toLowerCase ''A@X.COM'' = toLowerCase ''a@x.com''"
  by code_simp

lemma nonblank:
  "trim ''A'' \<noteq> []" "trim ''C'' \<noteq> []" "trim ''a@x.com'' \<noteq> []" "trim ''A@X.COM'' \<noteq> []"
  "trim ''new@x.com'' \<noteq> []" "trim ''A1'' \<noteq> []" "trim ''c3'' \<noteq> []" "trim ''pw'' \<noteq> []"
  "trim ''pw3'' \<noteq> []"
  by (simp_all add: trim_def is_ws_def)

lemma register_A1_eval:
  "registerUser sample_env empty_store register_A1 = (Inr alice_created, store_alice)"
  by (simp add: registerUser_def register_A1_def nonblank lower_A1 user_findFirst_OR_def
      user_create_def Let_def reply_def spread_def alice_created_def store_alice_def sample_defs)

text \<open>
  C2. Registering and then logging in with the same username and password does not
  always succeed. \<^verbatim>\<open>registerUser\<close> stores \<^verbatim>\<open>username.toLowerCase()\<close>, while \<^verbatim>\<open>loginUser\<close>
  looks the username up as it was typed: after registering \<^verbatim>\<open>A1\<close> with success (201),
  the login with \<^verbatim>\<open>A1\<close> and the same password throws \<^verbatim>\<open>ApiError(404)\<close>, although the
  login with \<^verbatim>\<open>a1\<close> and that password is answered with both tokens.
\<close>

theorem register_then_login_uppercase:
  "registerUser sample_env empty_store register_A1 = (Inr alice_created, store_alice) \<and>
   loginUser sample_env store_alice login_A1 = (Inl (ApiError 404 ''User does not exist''), store_alice) \<and>
   loginUser sample_env store_alice login_alice
     = (Inr alice_logged_in, store_alice\<lparr>users := [alice\<lparr>u_refreshToken := Some ''refresh-1''\<rparr>]\<rparr>)"
proof -
  have "loginUser sample_env store_alice login_A1 = (Inl (ApiError 404 ''User does not exist''), store_alice)"
    by (simp add: loginUser_def login_A1_def truthy_def user_findFirst_OR_def store_alice_def sample_defs)
  moreover have "loginUser sample_env store_alice login_alice
     = (Inr alice_logged_in, store_alice\<lparr>users := [alice\<lparr>u_refreshToken := Some ''refresh-1''\<rparr>]\<rparr>)"
    by (simp add: loginUser_def login_alice_def alice_logged_in_def store_alice_def
      sample_defs truthy_def user_findFirst_OR_def
      generateAccessAndRefreshTokens_def user_findUnique_def user_update_refreshToken_def
      options_def spread_def)
  ultimately show ?thesis using register_A1_eval by simp
qed

lemma blank_name: "trim ''  '' = []"
  by (simp add: trim_def is_ws_def)

lemma lower_Zoe: "toLowerCase ''Zoe'' = ''zoe''"
  by code_simp

lemma lower_a1: "toLowerCase ''a1'' = ''a1''"
  by code_simp

lemma nonblank2: "trim ''Z'' \<noteq> []" "trim ''z2@x.com'' \<noteq> []" "trim ''Zoe'' \<noteq> []" "trim ''a1'' \<noteq> []"
  by (simp_all add: trim_def is_ws_def)

text \<open>
  C3, as stated, fails in four ways. With \<^verbatim>\<open>a@x.com\<close> stored, registering the case
  variant \<^verbatim>\<open>A@X.COM\<close> under a new username succeeds (201) and adds a user. With the
  username \<^verbatim>\<open>a1\<close> stored, registering \<^verbatim>\<open>a1\<close> with a blank \<^verbatim>\<open>fullName\<close> throws
  \<^verbatim>\<open>ApiError(400)\<close>, and registering it with no \<^verbatim>\<open>password\<close> raises a TypeError, neither
  being the conflict error. With the username \<^verbatim>\<open>Zoe\<close> stored in upper case,
  registering \<^verbatim>\<open>Zoe\<close> under a new email succeeds (201) and adds a user \<^verbatim>\<open>zoe\<close>.
\<close>

theorem registerUser_not_conflict:
  "toLowerCase ''A@X.COM'' = toLowerCase (u_email alice) \<and>
   registerUser sample_env sample_store register_variant
     = (Inr (reply 201 (ApiResponse 200
          (CreatedUser \<lparr>ju_id = 3, ju_fullName = ''C'', ju_email = ''A@X.COM'', ju_username = ''c3'',
                        ju_password = None, ju_refreshToken = None\<rparr>)
          ''User registered successfully'')),
        sample_store\<lparr>users := [alice, bob, carol], next_user_id := 4\<rparr>) \<and>
   username (body register_blank) = Some (u_username alice) \<and>
   registerUser sample_env sample_store register_blank
     = (Inl (ApiError 400 ''All fields are required''), sample_store) \<and>
   username (body register_no_password) = Some (u_username alice) \<and>
   registerUser sample_env sample_store register_no_password = (Inl TypeError, sample_store) \<and>
   username (body register_Zoe) = Some (u_username zoe) \<and>
   registerUser sample_env store_zoe register_Zoe
     = (Inr (reply 201 (ApiResponse 200
          (CreatedUser \<lparr>ju_id = 4, ju_fullName = ''Z'', ju_email = ''z2@x.com'', ju_username = ''zoe'',
                        ju_password = None, ju_refreshToken = None\<rparr>)
          ''User registered successfully'')),
        store_zoe\<lparr>users := [alice, bob, zoe, zoe2], next_user_id := 5\<rparr>)"
proof -
  have a: "toLowerCase ''A@X.COM'' = toLowerCase (u_email alice)"
    by (simp add: alice_def lower_email)
  have b: "registerUser sample_env sample_store register_variant
     = (Inr (reply 201 (ApiResponse 200
          (CreatedUser \<lparr>ju_id = 3, ju_fullName = ''C'', ju_email = ''A@X.COM'', ju_username = ''c3'',
                        ju_password = None, ju_refreshToken = None\<rparr>)
          ''User registered successfully'')),
        sample_store\<lparr>users := [alice, bob, carol], next_user_id := 4\<rparr>)"
    by (simp add: registerUser_def register_variant_def nonblank lower_c3 user_findFirst_OR_def
      user_create_def Let_def reply_def spread_def carol_def sample_defs)
  have c: "username (body register_blank) = Some (u_username alice)"
    "registerUser sample_env sample_store register_blank
     = (Inl (ApiError 400 ''All fields are required''), sample_store)"
    by (simp_all add: registerUser_def register_blank_def blank_name alice_def no_body_def
        blank_request_def)
  have d: "username (body register_no_password) = Some (u_username alice)"
    "registerUser sample_env sample_store register_no_password = (Inl TypeError, sample_store)"
    by (simp_all add: registerUser_def register_no_password_def nonblank nonblank2 alice_def
        no_body_def blank_request_def)
  have e: "username (body register_Zoe) = Some (u_username zoe)"
    by (simp add: register_Zoe_def zoe_def no_body_def blank_request_def)
  have f: "registerUser sample_env store_zoe register_Zoe
     = (Inr (reply 201 (ApiResponse 200
          (CreatedUser \<lparr>ju_id = 4, ju_fullName = ''Z'', ju_email = ''z2@x.com'', ju_username = ''zoe'',
                        ju_password = None, ju_refreshToken = None\<rparr>)
          ''User registered successfully'')),
        store_zoe\<lparr>users := [alice, bob, zoe, zoe2], next_user_id := 5\<rparr>)"
    by (simp add: registerUser_def register_Zoe_def nonblank nonblank2 lower_Zoe user_findFirst_OR_def
      user_create_def Let_def reply_def spread_def zoe_def zoe2_def store_zoe_def sample_defs)
  from a b c d e f show ?thesis by simp
qed

lemma findFirst_some:
  "u \<in> set us \<Longrightarrow> uname = Some (u_username u) \<or> mail = Some (u_email u) \<Longrightarrow>
   user_findFirst_OR uname mail us \<noteq> None"
  by (auto simp: user_findFirst_OR_def find_None_iff)

text \<open>
  C3, amended. When all four fields are supplied and none is blank, and some stored
  user has the requested username in lower case as its username (so any case variant
  of a username that was stored by registration) or has exactly the requested email,
  \<^verbatim>\<open>registerUser\<close> throws \<^verbatim>\<open>ApiError(409)\<close> and the store is unchanged. Blank means
  empty after \<^verbatim>\<open>trim()\<close>, and lower case is that of \<^verbatim>\<open>toLowerCase()\<close>.
\<close>

theorem registerUser_conflict:
  assumes "fullName (body req) = Some fn" and "email (body req) = Some em"
    and "username (body req) = Some un" and "password (body req) = Some pw"
    and "trim fn \<noteq> []" and "trim em \<noteq> []" and "trim un \<noteq> []" and "trim pw \<noteq> []"
    and "u \<in> set (users s)" and "u_username u = toLowerCase un \<or> u_email u = em"
  shows "registerUser e s req = (Inl (ApiError 409 ''User with email or username already exists''), s)"
proof -
  from assms(9,10) have "user_findFirst_OR (Some (toLowerCase un)) (Some em) (users s) \<noteq> None"
    by (intro findFirst_some [of u]) auto
  then obtain v where "user_findFirst_OR (Some (toLowerCase un)) (Some em) (users s) = Some v"
    by blast
  with assms(1-8) show ?thesis
    by (simp add: registerUser_def)
qed

theorem registerUser_conflict_witness:
  "registerUser sample_env sample_store register_again
     = (Inl (ApiError 409 ''User with email or username already exists''), sample_store)"
proof -
  have "alice \<in> set (users sample_store)" by (simp add: sample_store_def)
  moreover have "u_username alice = toLowerCase ''A1'' \<or> u_email alice = ''new@x.com''"
    by (simp add: lower_A1 alice_def)
  ultimately show ?thesis
    using registerUser_conflict [of register_again "''A''" "''new@x.com''" "''A1''" "''pw''" alice sample_store sample_env]
    by (simp add: register_again_def nonblank no_body_def blank_request_def)
qed

section \<open>The Auth Gate: outcomes\<close>

lemma authenticateToken_unbound:
  "jwt_verify e = (\<lambda>t k. Inl ReferenceError) \<Longrightarrow>
   authenticateToken e req = (if truthy (accessToken req) then Raise ReferenceError else SendStatus 401)"
  by (auto simp: authenticateToken_def truthy_def split: option.splits)

text \<open>
  C5. For a request with a non-empty \<^verbatim>\<open>accessToken\<close> cookie the gate answers neither
  403 nor with the next stage: the middleware calls \<^verbatim>\<open>jwt.verify\<close>, and \<^verbatim>\<open>jwt\<close> is
  bound nowhere in it, so the call raises a ReferenceError. Only the 401 for an absent
  (or empty) cookie is answered.
\<close>

theorem authenticateToken_raises:
  "authenticateToken sample_env (blank_request\<lparr>accessToken := Some ''access-1''\<rparr>) = Raise ReferenceError \<and>
   authenticateToken sample_env req =
     (if truthy (accessToken req) then Raise ReferenceError else SendStatus 401)"
proof -
  have v: "jwt_verify sample_env = (\<lambda>t k. Inl ReferenceError)"
    by (simp add: sample_env_def)
  show ?thesis
    by (simp add: authenticateToken_unbound [OF v] truthy_def)
qed

section \<open>Creating a review\<close>

lemma createReview_unbound:
  "verifyToken e = (\<lambda>t. Inl ReferenceError) \<Longrightarrow>
   createReview e s req =
     (if truthy (bearer req) then reply 500 (ErrorObj ''Internal server error'')
      else reply 401 (ErrorObj ''No token provided''), s)"
  by (auto simp: createReview_def truthy_def split: option.splits)

text \<open>
  C1. \<^verbatim>\<open>createReview\<close> does not insert the review. It takes its token from the
  \<^verbatim>\<open>Authorization\<close> header and not from the cookie or from the identity that the gate
  attached, and it verifies the token with \<^verbatim>\<open>verifyToken\<close>, a name the controller
  module never binds. A request that carries the identity of user 1, the cookie and a
  bearer token, for the stored movie 5, is answered 500 with the store as it was; the
  same request without the header is answered 401; and for every store and request
  the answer is one of these two and the store is unchanged.
\<close>

theorem createReview_never_inserts:
  "req_user with_header = Some \<lparr>pl_id = Some 1\<rparr> \<and>
   createReview sample_env sample_store with_header
     = (reply 500 (ErrorObj ''Internal server error''), sample_store) \<and>
   req_user cookie_only = Some \<lparr>pl_id = Some 1\<rparr> \<and>
   createReview sample_env sample_store cookie_only
     = (reply 401 (ErrorObj ''No token provided''), sample_store) \<and>
   createReview sample_env s req =
     (if truthy (bearer req) then reply 500 (ErrorObj ''Internal server error'')
      else reply 401 (ErrorObj ''No token provided''), s)"
proof -
  have v: "verifyToken sample_env = (\<lambda>t. Inl ReferenceError)"
    by (simp add: sample_env_def)
  have h: "truthy (bearer with_header)"
    by (simp add: bearer_def with_header_def at_index_def truthy_def)
  have c: "\<not> truthy (bearer cookie_only)"
    by (simp add: bearer_def cookie_only_def blank_request_def truthy_def)
  have u: "req_user with_header = Some \<lparr>pl_id = Some 1\<rparr>" "req_user cookie_only = Some \<lparr>pl_id = Some 1\<rparr>"
    by (simp_all add: with_header_def cookie_only_def)
  from h c u show ?thesis
    by (simp add: createReview_unbound [OF v])
qed

end
